theory Spec2Isabelle
  imports Complex_Main
begin

section \<open>JavaScript values\<close>

text \<open>
  The two modules (\<^verbatim>\<open>cacheManager.js\<close> and \<^verbatim>\<open>server.js\<close>) compute with untyped JSON
  values: a price may be a number, the string \<^verbatim>\<open>'N/A'\<close>, \<^verbatim>\<open>null\<close> or an object, and the
  amount of a request body is whatever JSON the client sent. A JavaScript number is a real
  number or \<^verbatim>\<open>NaN\<close> here; rounding of doubles and the infinities are not modelled.
\<close>

datatype num = NaN | Fin real

datatype jsval =
    Undefined
  | Null
  | Bool bool
  | Number num
  | Str string
  | Obj "(string \<times> jsval) list"

text \<open>\<^verbatim>\<open>!v\<close>: the falsy values of JavaScript.\<close>

fun falsy :: "jsval \<Rightarrow> bool" where
  "falsy Undefined = True"
| "falsy Null = True"
| "falsy (Bool b) = (b = False)"
| "falsy (Number NaN) = True"
| "falsy (Number (Fin r)) = (r = 0)"
| "falsy (Str s) = (s = [])"
| "falsy (Obj kvs) = False"

text \<open>
  \<^verbatim>\<open>Number(v)\<close>, the conversion behind \<^verbatim>\<open>isNaN(v)\<close>, \<^verbatim>\<open>v <= 0\<close> and \<^verbatim>\<open>a * v\<close>. The numeric
  reading of a string is JavaScript's own grammar, which is no part of this repository: it
  is the parameter \<open>strNumber\<close>. A plain object converts to \<^verbatim>\<open>NaN\<close>.
\<close>

fun toNumber :: "(string \<Rightarrow> num) \<Rightarrow> jsval \<Rightarrow> num" where
  "toNumber strNumber Undefined = NaN"
| "toNumber strNumber Null = Fin 0"
| "toNumber strNumber (Bool b) = (if b then Fin 1 else Fin 0)"
| "toNumber strNumber (Number n) = n"
| "toNumber strNumber (Str s) = strNumber s"
| "toNumber strNumber (Obj kvs) = NaN"

definition isNaN :: "(string \<Rightarrow> num) \<Rightarrow> jsval \<Rightarrow> bool" where
  "isNaN strNumber v = (toNumber strNumber v = NaN)"

text \<open>\<^verbatim>\<open>v <= 0\<close>: a comparison with \<^verbatim>\<open>NaN\<close> is false.\<close>

definition leZero :: "(string \<Rightarrow> num) \<Rightarrow> jsval \<Rightarrow> bool" where
  "leZero strNumber v = (case toNumber strNumber v of NaN \<Rightarrow> False | Fin r \<Rightarrow> r \<le> 0)"

text \<open>
  \<^verbatim>\<open>parseFloat(v)\<close> converts its argument to a string and reads a decimal prefix of it:
  a number reads back as itself, \<^verbatim>\<open>"undefined"\<close>, \<^verbatim>\<open>"null"\<close>, \<^verbatim>\<open>"true"\<close>, \<^verbatim>\<open>"false"\<close> and
  \<^verbatim>\<open>"[object Object]"\<close> have no decimal prefix. The reading of a string is the parameter
  \<open>strFloat\<close>.
\<close>

fun parseFloat :: "(string \<Rightarrow> num) \<Rightarrow> jsval \<Rightarrow> num" where
  "parseFloat strFloat (Number n) = n"
| "parseFloat strFloat (Str s) = strFloat s"
| "parseFloat strFloat Undefined = NaN"
| "parseFloat strFloat Null = NaN"
| "parseFloat strFloat (Bool b) = NaN"
| "parseFloat strFloat (Obj kvs) = NaN"

fun plus_num :: "num \<Rightarrow> num \<Rightarrow> num" where
  "plus_num (Fin a) (Fin b) = Fin (a + b)"
| "plus_num a b = NaN"

fun times_num :: "num \<Rightarrow> num \<Rightarrow> num" where
  "times_num (Fin a) (Fin b) = Fin (a * b)"
| "times_num a b = NaN"

text \<open>\<^verbatim>\<open>v.usd\<close> on a value that is not \<^verbatim>\<open>null\<close> or \<^verbatim>\<open>undefined\<close>: a primitive has no such
  property, an object has the one stored under the key, the last one winning.\<close>

fun prop_usd :: "jsval \<Rightarrow> jsval" where
  "prop_usd (Obj kvs) = (case map_of (rev kvs) ''usd'' of None \<Rightarrow> Undefined | Some v \<Rightarrow> v)"
| "prop_usd v = Undefined"

section \<open>The retry wrapper of the upstream call\<close>

text \<open>
  \<^verbatim>\<open>axios.get\<close> either resolves with the body of the response or rejects: with the HTTP
  status of the response when there is one (\<^verbatim>\<open>error.response.status\<close>), without a response
  on a network failure.
\<close>

datatype 'a reply = Resolved 'a | HttpError nat | NoResponse

text \<open>What \<^verbatim>\<open>retryAxios\<close> does on the way: each request sent and each wait, in milliseconds.\<close>

datatype event = Get | Sleep nat

text \<open>
  \<^verbatim>\<open>retryAxios(url, config, retries = 5, delay = 1000)\<close>. The upstream is the function
  \<open>upstream\<close> from the number of the request (from \<open>k\<close> on) to what that request
  meets. The result is what the promise settles with and the requests and waits made.
\<close>

fun retryAxios :: "(nat \<Rightarrow> 'a reply) \<Rightarrow> nat \<Rightarrow> nat \<Rightarrow> nat \<Rightarrow> 'a reply \<times> event list" where
  "retryAxios upstream k retries delay =
     (case upstream k of
        Resolved d \<Rightarrow> (Resolved d, [Get])
      | HttpError st \<Rightarrow>
          (case retries of
             Suc r \<Rightarrow>
               (if st = 429
                then (let (res, evs) = retryAxios upstream (Suc k) r (delay * 2)
                      in (res, Get # Sleep delay # evs))
                else (HttpError st, [Get]))
           | 0 \<Rightarrow> (HttpError st, [Get]))
      | NoResponse \<Rightarrow> (NoResponse, [Get]))"

declare retryAxios.simps [simp del]

definition attempts :: "event list \<Rightarrow> nat" where
  "attempts evs = length (filter (\<lambda>e. e = Get) evs)"

definition waits :: "event list \<Rightarrow> nat list" where
  "waits evs = concat (map (\<lambda>e. case e of Get \<Rightarrow> [] | Sleep d \<Rightarrow> [d]) evs)"

section \<open>Holdings, the cache and the price feed\<close>

text \<open>
  A holding as \<^verbatim>\<open>portfolio.json\<close> stores it. \<^verbatim>\<open>name\<close>, \<^verbatim>\<open>symbol\<close> and \<^verbatim>\<open>lastPrice\<close> may be
  absent (\<^verbatim>\<open>undefined\<close>, here \<open>None\<close>); \<^verbatim>\<open>lastPrice.usd\<close> is any JSON value: the handler of
  \<^verbatim>\<open>POST /api/portfolio/add\<close> stores the string \<^verbatim>\<open>'N/A'\<close> there.
\<close>

record lastPrice =
  usd :: jsval
  timestamp :: int

record holding =
  coin :: string
  amount :: num
  name :: "string option"
  symbol :: "string option"
  lastPrice :: "lastPrice option"

text \<open>One element of the array that \<^verbatim>\<open>/coins/markets\<close> answers with.\<close>

record coinData =
  coin_id :: string
  current_price :: jsval
  coin_name :: "string option"
  coin_symbol :: "string option"

text \<open>
  \<^verbatim>\<open>portfolioCache\<close> starts as the empty object \<^verbatim>\<open>{}\<close> and is reset to it by
  \<^verbatim>\<open>fetchAndCachePrices\<close> on an empty portfolio; otherwise it is an array of holdings.
\<close>

datatype cache = EmptyObject | Items "holding list"

text \<open>
  The log of the requests sent to the price feed is instrumentation: which path sent the
  request, for which ids, and when: the time at which the function that sends it was
  called. A request and its retries inside \<^verbatim>\<open>retryAxios\<close> are one entry. The requests of \<^verbatim>\<open>fetchAndCachePrices\<close> and of the background task of
  \<^verbatim>\<open>GET /api/portfolio\<close> ask for every id of the portfolio (full batch); the request of
  \<^verbatim>\<open>fetchCoinPrice\<close> asks for one id.
\<close>

datatype origin = Periodic | OnDemand | Reconciliation

record feedCall =
  started :: int
  ids :: "string list"
  origin :: origin

text \<open>
  The state of the process: the two module variables of \<^verbatim>\<open>cacheManager.js\<close>, the list
  behind \<^verbatim>\<open>getPortfolio\<close> and \<^verbatim>\<open>savePortfolio\<close> (an external package: loading returns the
  list last saved, as fresh objects, and neither call fails), and two logs: the requests
  sent to the price feed, and the lists handed to \<^verbatim>\<open>savePortfolio\<close>, oldest first. Each
  function below runs to its end in one step: tasks interleaved at an \<^verbatim>\<open>await\<close> are not
  modelled, and the store answers at once.
\<close>

record state =
  portfolioCache :: cache
  lastApiCallTime :: int
  portfolioFile :: "holding list"
  feedCalls :: "feedCall list"
  saves :: "holding list list"

definition CACHE_DURATION :: int where
  "CACHE_DURATION = 5 * 60 * 1000"

definition API_CALL_INTERVAL :: int where
  "API_CALL_INTERVAL = 30 * 1000"

definition initial :: "holding list \<Rightarrow> state" where
  "initial file =
     \<lparr>portfolioCache = EmptyObject, lastApiCallTime = 0, portfolioFile = file, feedCalls = [],
      saves = []\<rparr>"

text \<open>\<^verbatim>\<open>getPortfolio()\<close> and \<^verbatim>\<open>savePortfolio(list)\<close>: a save replaces the stored list and is
  logged, also when the list saved is the one already stored.\<close>

definition getPortfolio :: "state \<Rightarrow> holding list" where
  "getPortfolio s = portfolioFile s"

definition savePortfolio :: "holding list \<Rightarrow> state \<Rightarrow> state" where
  "savePortfolio list s = s\<lparr>portfolioFile := list, saves := saves s @ [list]\<rparr>"

declare getPortfolio_def [simp]

declare savePortfolio_def [simp]

text \<open>\<^verbatim>\<open>response.data.forEach(coin => { liveCoinData[coin.id] = coin; })\<close>, as a map: the
  keys that every JavaScript object inherits are not modelled.\<close>

definition liveCoinData :: "coinData list \<Rightarrow> (string \<rightharpoonup> coinData)" where
  "liveCoinData data = foldl (\<lambda>m c. m(coin_id c \<mapsto> c)) Map.empty data"

section \<open>cacheManager.js\<close>

text \<open>The body of the loop of \<^verbatim>\<open>fetchAndCachePrices\<close> over the portfolio (lines 63 to 74).\<close>

definition refreshItem :: "(string \<rightharpoonup> coinData) \<Rightarrow> int \<Rightarrow> holding \<Rightarrow> holding" where
  "refreshItem live stamp item =
     (case live (coin item) of
        None \<Rightarrow> item
      | Some c \<Rightarrow>
          (if falsy (current_price c) then item
           else item\<lparr>lastPrice := Some \<lparr>usd = current_price c, timestamp = stamp\<rparr>,
                     name := coin_name c, symbol := coin_symbol c\<rparr>))"

text \<open>
  \<^verbatim>\<open>fetchAndCachePrices\<close>, called at time \<open>now\<close>; \<open>stamp\<close> is what \<^verbatim>\<open>Date.now()\<close> answers when
  the prices are written. Every failure of the upstream is caught and logged.
\<close>

definition fetchAndCachePrices :: "int \<Rightarrow> (nat \<Rightarrow> coinData list reply) \<Rightarrow> int \<Rightarrow> state \<Rightarrow> state" where
  "fetchAndCachePrices now upstream stamp s =
     (if now - lastApiCallTime s < API_CALL_INTERVAL then s
      else
        (let s1 = s\<lparr>lastApiCallTime := now\<rparr>;
             portfolio = getPortfolio s1;
             coinIds = map coin portfolio
         in if length coinIds = 0
            then savePortfolio [] (s1\<lparr>portfolioCache := EmptyObject\<rparr>)
            else
              (let s2 = s1\<lparr>feedCalls := feedCalls s1 @ [\<lparr>started = now, ids = coinIds, origin = Periodic\<rparr>]\<rparr>
               in case fst (retryAxios upstream 0 5 1000) of
                    Resolved data \<Rightarrow>
                      (let updatedPortfolio = map (refreshItem (liveCoinData data) stamp) portfolio
                       in (savePortfolio updatedPortfolio s2)
                            \<lparr>portfolioCache := Items updatedPortfolio\<rparr>)
                  | HttpError st \<Rightarrow> s2
                  | NoResponse \<Rightarrow> s2)))"

definition getCachedPortfolio :: "state \<Rightarrow> cache" where
  "getCachedPortfolio s = portfolioCache s"

definition updatePortfolioCache :: "holding list \<Rightarrow> state \<Rightarrow> state" where
  "updatePortfolioCache newPortfolio s = s\<lparr>portfolioCache := Items newPortfolio\<rparr>"

text \<open>The function mapped over the portfolio by \<^verbatim>\<open>fetchCoinPrice\<close> (lines 112 to 122).\<close>

definition priceItem :: "string \<Rightarrow> coinData \<Rightarrow> int \<Rightarrow> holding \<Rightarrow> holding" where
  "priceItem coinId c stamp item =
     (if coin item = coinId
      then item\<lparr>lastPrice := Some \<lparr>usd = current_price c, timestamp = stamp\<rparr>,
                name := coin_name c, symbol := coin_symbol c\<rparr>
      else item)"

text \<open>\<^verbatim>\<open>fetchCoinPrice(coinId)\<close>: no look at \<^verbatim>\<open>lastApiCallTime\<close>, the request is always sent.\<close>

definition fetchCoinPrice :: "string \<Rightarrow> int \<Rightarrow> (nat \<Rightarrow> coinData list reply) \<Rightarrow> int \<Rightarrow> state \<Rightarrow> state" where
  "fetchCoinPrice coinId now upstream stamp s =
     (let s1 = s\<lparr>feedCalls := feedCalls s @ [\<lparr>started = now, ids = [coinId], origin = OnDemand\<rparr>]\<rparr>
      in case fst (retryAxios upstream 0 5 1000) of
           Resolved data \<Rightarrow>
             (case data of
                [] \<Rightarrow> s1
              | c # rest \<Rightarrow>
                  (let portfolio = getPortfolio s1;
                       updatedPortfolio = map (priceItem coinId c stamp) portfolio
                   in (savePortfolio updatedPortfolio s1)
                        \<lparr>portfolioCache := Items updatedPortfolio\<rparr>))
         | HttpError st \<Rightarrow> s1
         | NoResponse \<Rightarrow> s1)"

section \<open>server.js\<close>

text \<open>
  The outcome of a handler: the status it sends and, on success, the JSON body. A
  \<^verbatim>\<open>TypeError\<close> thrown inside a handler is caught by its \<^verbatim>\<open>catch\<close> and answered with
  status 500.
\<close>

datatype 'a response = Json200 'a | Json400 | Json404 | Json500

datatype jserror = TypeError

text \<open>The string that \<^verbatim>\<open>n.toFixed(d)\<close> returns is kept as the pair of \<open>d\<close> and \<open>n\<close>.\<close>

datatype fixed = ToFixed nat num

subsection \<open>GET /api/coin/:coinId/price\<close>

definition getCoinPrice :: "(string \<Rightarrow> num) \<Rightarrow> string \<Rightarrow> state \<Rightarrow> (jsval \<times> fixed) response" where
  "getCoinPrice strNumber coinId s =
     (case getCachedPortfolio s of
        EmptyObject \<Rightarrow> Json500
      | Items portfolio \<Rightarrow>
          (case find (\<lambda>item. coin item = coinId) portfolio of
             None \<Rightarrow> Json404
           | Some c \<Rightarrow>
               (case lastPrice c of
                  None \<Rightarrow> Json404
                | Some lp \<Rightarrow>
                    (if usd lp = Str ''N/A'' then Json404
                     else Json200 (usd lp,
                            ToFixed 2 (times_num (amount c) (toNumber strNumber (usd lp))))))))"

subsection \<open>GET /api/portfolio: the response\<close>

text \<open>\<^verbatim>\<open>toUpperCase\<close>, on the letters of ASCII.\<close>

definition upperChar :: "char \<Rightarrow> char" where
  "upperChar c =
     (let n = (of_char c :: nat) in if 97 \<le> n \<and> n \<le> 122 then char_of (n - 32) else c)"

definition toUpperCase :: "string \<Rightarrow> string" where
  "toUpperCase s = map upperChar s"

datatype display = NA | Shown fixed

record row =
  row_name :: "string option"
  row_symbol :: string
  row_amount :: num
  row_price :: display
  row_value :: display
  cached :: bool
  row_coin :: string

text \<open>\<^verbatim>\<open>item.name || item.coin\<close> and \<^verbatim>\<open>item.symbol || 'N/A'\<close>: an empty string is falsy too.\<close>

definition orElse :: "string option \<Rightarrow> string \<Rightarrow> string" where
  "orElse v d = (case v of None \<Rightarrow> d | Some x \<Rightarrow> (if x = [] then d else x))"

text \<open>
  The body of the loop of the handler (lines 68 to 98). A truthy \<^verbatim>\<open>cachedPrice\<close> that is
  not a number has no method \<^verbatim>\<open>toFixed\<close>, and an absent \<^verbatim>\<open>symbol\<close> has no method
  \<^verbatim>\<open>toUpperCase\<close>: calling either throws a \<^verbatim>\<open>TypeError\<close>.
\<close>

definition viewItem :: "holding \<Rightarrow> jserror + row" where
  "viewItem item =
     (let cachedPrice = (case lastPrice item of None \<Rightarrow> Undefined | Some lp \<Rightarrow> usd lp)
      in if falsy cachedPrice
         then Inr \<lparr>row_name = Some (orElse (name item) (coin item)),
                   row_symbol = orElse (symbol item) ''N/A'',
                   row_amount = amount item, row_price = NA, row_value = NA, cached = False,
                   row_coin = coin item\<rparr>
         else
           (case cachedPrice of
              Number (Fin p) \<Rightarrow>
                (let displayPrice =
                       (if 1 \<le> p then ToFixed 2 (Fin p)
                        else if 1 / 10000 \<le> p then ToFixed 4 (Fin p)
                        else ToFixed 8 (Fin p));
                     displayValue = ToFixed 2 (times_num (amount item) (Fin p))
                 in case symbol item of
                      None \<Rightarrow> Inl TypeError
                    | Some sy \<Rightarrow>
                        Inr \<lparr>row_name = name item, row_symbol = toUpperCase sy,
                             row_amount = amount item, row_price = Shown displayPrice,
                             row_value = Shown displayValue, cached = True,
                             row_coin = coin item\<rparr>)
            | _ \<Rightarrow> Inl TypeError))"

fun viewItems :: "holding list \<Rightarrow> jserror + row list" where
  "viewItems [] = Inr []"
| "viewItems (item # rest) =
     (case viewItem item of
        Inl e \<Rightarrow> Inl e
      | Inr r \<Rightarrow> (case viewItems rest of Inl e \<Rightarrow> Inl e | Inr rs \<Rightarrow> Inr (r # rs)))"

text \<open>
  The values that \<^verbatim>\<open>totalValue\<close> adds up: the value strings other than \<^verbatim>\<open>'N/A'\<close>, each read
  back by \<^verbatim>\<open>parseFloat\<close>. The response carries them in place of their sum.
\<close>

definition totalled :: "row list \<Rightarrow> fixed list" where
  "totalled rs = concat (map (\<lambda>r. case row_value r of NA \<Rightarrow> [] | Shown f \<Rightarrow> [f]) rs)"

text \<open>
  The synchronous part of the handler. The empty object \<^verbatim>\<open>{}\<close> is not iterable:
  \<^verbatim>\<open>for (const item of portfolio)\<close> throws a \<^verbatim>\<open>TypeError\<close> on it.
\<close>

definition getPortfolioView :: "state \<Rightarrow> (row list \<times> fixed list) response" where
  "getPortfolioView s =
     (case getCachedPortfolio s of
        EmptyObject \<Rightarrow> Json500
      | Items portfolio \<Rightarrow>
          (case viewItems portfolio of
             Inl e \<Rightarrow> Json500
           | Inr rs \<Rightarrow> Json200 (rs, totalled rs)))"

subsection \<open>GET /api/portfolio: the background task\<close>

text \<open>Line 130: the test \<^verbatim>\<open>needsUpdate\<close>, at the time \<open>t\<close> that \<^verbatim>\<open>Date.now()\<close> answers.\<close>

definition needsUpdate :: "int \<Rightarrow> holding \<Rightarrow> bool" where
  "needsUpdate t item =
     (case lastPrice item of
        None \<Rightarrow> True
      | Some lp \<Rightarrow> (if falsy (usd lp) then True else 300000 \<le> t - timestamp lp))"

text \<open>
  Lines 135 to 145. The price is taken only when \<^verbatim>\<open>coinData.current_price.usd\<close> is a number
  other than \<^verbatim>\<open>NaN\<close>, that is when \<^verbatim>\<open>current_price\<close> is an object with a numeric \<^verbatim>\<open>usd\<close>.
\<close>

definition reconcilePrice :: "(string \<rightharpoonup> coinData) \<Rightarrow> int \<Rightarrow> holding \<Rightarrow> holding" where
  "reconcilePrice live t item =
     (case live (coin item) of
        None \<Rightarrow> item
      | Some coinData \<Rightarrow>
          (if falsy (current_price coinData) then item
           else
             (case prop_usd (current_price coinData) of
                Number (Fin currentPrice) \<Rightarrow>
                  item\<lparr>lastPrice := Some \<lparr>usd = Number (Fin currentPrice), timestamp = t\<rparr>,
                       name := coin_name coinData, symbol := coin_symbol coinData\<rparr>
              | _ \<Rightarrow> item)))"

text \<open>
  The loop of lines 128 to 151, with the clock: \<^verbatim>\<open>sleep(3000)\<close> moves it on by 3000
  milliseconds. The result is the list pushed and the clock at the end.
\<close>

fun reconcileItems :: "(string \<rightharpoonup> coinData) \<Rightarrow> int \<Rightarrow> holding list \<Rightarrow> holding list \<times> int" where
  "reconcileItems live t [] = ([], t)"
| "reconcileItems live t (item # rest) =
     (if needsUpdate t item
      then (let t1 = t + 3000;
                (rest1, t2) = reconcileItems live t1 rest
            in (reconcilePrice live t1 item # rest1, t2))
      else (let (rest1, t2) = reconcileItems live t rest in (item # rest1, t2)))"

text \<open>
  The task started after the response (lines 103 to 156): one request to
  \<^verbatim>\<open>/coins/markets\<close> with \<^verbatim>\<open>axios.get\<close> itself, sent at \<open>now\<close> and answered by \<open>reply\<close>,
  then the loop from time \<open>t0\<close> on, then \<^verbatim>\<open>savePortfolio\<close>. Nothing here reads
  \<^verbatim>\<open>lastApiCallTime\<close> or writes \<^verbatim>\<open>portfolioCache\<close>. The second component is the clock when
  the list is saved.
\<close>

definition reconcile :: "int \<Rightarrow> coinData list reply \<Rightarrow> int \<Rightarrow> state \<Rightarrow> state \<times> int" where
  "reconcile now reply t0 s =
     (let latestPortfolio = getPortfolio s;
          backgroundCoinIds = map coin latestPortfolio;
          s1 = (if 0 < length backgroundCoinIds
                then s\<lparr>feedCalls := feedCalls s @
                         [\<lparr>started = now, ids = backgroundCoinIds, origin = Reconciliation\<rparr>]\<rparr>
                else s);
          backgroundLiveCoinData =
            (if 0 < length backgroundCoinIds
             then (case reply of
                     Resolved data \<Rightarrow> liveCoinData data
                   | HttpError st \<Rightarrow> Map.empty
                   | NoResponse \<Rightarrow> Map.empty)
             else Map.empty);
          (updatedPortfolio, t) = reconcileItems backgroundLiveCoinData t0 latestPortfolio
      in (savePortfolio updatedPortfolio s1, t))"

subsection \<open>POST /api/portfolio/add\<close>

text \<open>
  \<^verbatim>\<open>existingCoin.amount += parseFloat(amount)\<close> on the first holding of that coin, which is
  the one \<^verbatim>\<open>find\<close> returns.
\<close>

fun addToExisting :: "string \<Rightarrow> num \<Rightarrow> holding list \<Rightarrow> holding list" where
  "addToExisting coinId a [] = []"
| "addToExisting coinId a (item # rest) =
     (if coin item = coinId then item\<lparr>amount := plus_num (amount item) a\<rparr> # rest
      else item # addToExisting coinId a rest)"

definition newHolding :: "string \<Rightarrow> num \<Rightarrow> holding" where
  "newHolding coinId a =
     \<lparr>coin = coinId, amount = a, name = Some coinId, symbol = Some ''?'',
      lastPrice = Some \<lparr>usd = Str ''N/A'', timestamp = 0\<rparr>\<rparr>"

text \<open>
  The handler up to its response. The body's \<^verbatim>\<open>coinId\<close> is a string or absent (\<open>None\<close>),
  its \<^verbatim>\<open>amount\<close> any JSON value. The call \<^verbatim>\<open>fetchCoinPrice(coinId)\<close> that the handler
  starts without awaiting it is the function \<open>fetchCoinPrice\<close> above.
\<close>

definition add ::
  "(string \<Rightarrow> num) \<Rightarrow> (string \<Rightarrow> num) \<Rightarrow> string option \<Rightarrow> jsval \<Rightarrow> state \<Rightarrow> holding list response \<times> state" where
  "add strNumber strFloat coinId amt s =
     (case coinId of
        None \<Rightarrow> (Json400, s)
      | Some cid \<Rightarrow>
          (if cid = [] then (Json400, s)
           else if isNaN strNumber amt then (Json400, s)
           else if leZero strNumber amt then (Json400, s)
           else
             (let portfolio = getPortfolio s;
                  portfolio1 =
                    (case find (\<lambda>item. coin item = cid) portfolio of
                       Some existingCoin \<Rightarrow> addToExisting cid (parseFloat strFloat amt) portfolio
                     | None \<Rightarrow> portfolio @ [newHolding cid (parseFloat strFloat amt)])
              in (Json200 portfolio1,
                  updatePortfolioCache portfolio1 (savePortfolio portfolio1 s)))))"

subsection \<open>DELETE /api/portfolio/remove/:coinId\<close>

definition remove :: "string \<Rightarrow> state \<Rightarrow> unit response \<times> state" where
  "remove coinIdToRemove s =
     (let initialLength = length (getPortfolio s);
          portfolio = filter (\<lambda>item. coin item \<noteq> coinIdToRemove) (getPortfolio s)
      in if length portfolio < initialLength
         then (Json200 (), updatePortfolioCache portfolio (savePortfolio portfolio s))
         else (Json404, s))"

section \<open>Sequences of refresh triggers\<close>

text \<open>
  The three paths that send a request to the price feed, each with the times and the
  upstream behaviour it meets: the tick of \<^verbatim>\<open>setInterval\<close>, the fetch started by an add, and
  the background task started by a read of the portfolio.
\<close>

datatype trigger =
    Tick int "nat \<Rightarrow> coinData list reply" int
  | AddFetch string int "nat \<Rightarrow> coinData list reply" int
  | PostRead int "coinData list reply" int

fun step :: "state \<Rightarrow> trigger \<Rightarrow> state" where
  "step s (Tick now upstream stamp) = fetchAndCachePrices now upstream stamp s"
| "step s (AddFetch coinId now upstream stamp) = fetchCoinPrice coinId now upstream stamp s"
| "step s (PostRead now reply t0) = fst (reconcile now reply t0 s)"

definition run :: "state \<Rightarrow> trigger list \<Rightarrow> state" where
  "run s ts = foldl step s ts"

text \<open>The start times of the logged requests of one origin, oldest first.\<close>

definition callTimes :: "(origin \<Rightarrow> bool) \<Rightarrow> state \<Rightarrow> int list" where
  "callTimes P s = map started (filter (\<lambda>c. P (origin c)) (feedCalls s))"

definition fullBatch :: "origin \<Rightarrow> bool" where
  "fullBatch og = (case og of Periodic \<Rightarrow> True | OnDemand \<Rightarrow> False | Reconciliation \<Rightarrow> True)"

definition periodic :: "origin \<Rightarrow> bool" where
  "periodic og = (case og of Periodic \<Rightarrow> True | OnDemand \<Rightarrow> False | Reconciliation \<Rightarrow> False)"

text \<open>No two of the times are less than \<^verbatim>\<open>API_CALL_INTERVAL\<close> apart.\<close>

fun spaced :: "int list \<Rightarrow> bool" where
  "spaced [] = True"
| "spaced (t # ts) = (list_all (\<lambda>u. API_CALL_INTERVAL \<le> \<bar>u - t\<bar>) ts \<and> spaced ts)"

section \<open>The interval test of the periodic refresh, and freshness\<close>

text \<open>
  What the interval test of \<^verbatim>\<open>fetchAndCachePrices\<close> maintains: its own requests are spaced, and none
  of them started after \<^verbatim>\<open>lastApiCallTime\<close>.
\<close>

definition throttled :: "state \<Rightarrow> bool" where
  "throttled s =
     (spaced (callTimes periodic s) \<and>
      list_all (\<lambda>t. t \<le> lastApiCallTime s) (callTimes periodic s))"

text \<open>
  The spec's notion of a fresh entry, in the spec's words: observed within
  \<^verbatim>\<open>CACHE_DURATION\<close> of now. The handler of the price endpoint does not compute it; the
  background task tests the opposite, with the literal 300000.
\<close>

definition fresh_spec :: "int \<Rightarrow> holding \<Rightarrow> bool" where
  "fresh_spec now item =
     (case lastPrice item of None \<Rightarrow> False | Some lp \<Rightarrow> now - timestamp lp < CACHE_DURATION)"

section \<open>Example data\<close>

text \<open>An upstream that answers every request with status 429, and one that does so twice
  and then fails with status 500.\<close>

definition always429 :: "nat \<Rightarrow> coinData list reply" where
  "always429 k = HttpError 429"

definition twiceLimited :: "nat \<Rightarrow> coinData list reply" where
  "twiceLimited k = (if k < 2 then HttpError 429 else HttpError 500)"

text \<open>String readings for the examples: no string reads as a number.\<close>

definition noNumber :: "string \<Rightarrow> num" where
  "noNumber s = NaN"

text \<open>Two holdings as the command-line tool leaves them, without a price.\<close>

definition btc :: holding where
  "btc = \<lparr>coin = ''bitcoin'', amount = Fin 2, name = None, symbol = None, lastPrice = None\<rparr>"

definition eth :: holding where
  "eth = \<lparr>coin = ''ethereum'', amount = Fin 10, name = None, symbol = None, lastPrice = None\<rparr>"

text \<open>A holding whose price was observed at time 0.\<close>

definition btcPriced :: holding where
  "btcPriced =
     \<lparr>coin = ''bitcoin'', amount = Fin 2, name = Some ''Bitcoin'', symbol = Some ''btc'',
      lastPrice = Some \<lparr>usd = Number (Fin 50000), timestamp = 0\<rparr>\<rparr>"

text \<open>What \<^verbatim>\<open>/coins/markets\<close> answers for bitcoin: \<^verbatim>\<open>current_price\<close> is a number.\<close>

definition btcData :: coinData where
  "btcData =
     \<lparr>coin_id = ''bitcoin'', current_price = Number (Fin 50000),
      coin_name = Some ''Bitcoin'', coin_symbol = Some ''btc''\<rparr>"

definition marketsOk :: "nat \<Rightarrow> coinData list reply" where
  "marketsOk k = Resolved [btcData]"

text \<open>The state after the only holding was removed: an empty list, stored and cached.\<close>

definition emptied :: state where
  "emptied = snd (remove ''bitcoin'' (initial [btc]))"

text \<open>A state whose cache holds the price observed at time 0.\<close>

definition pricedState :: state where
  "pricedState = (initial [btcPriced])\<lparr>portfolioCache := Items [btcPriced]\<rparr>"

text \<open>A tick that is let through, and a read of the portfolio one second later.\<close>

definition tickThenRead :: "trigger list" where
  "tickThenRead = [Tick 100000 marketsOk 100500, PostRead 101000 (Resolved [btcData]) 101500]"

definition ethData :: coinData where
  "ethData =
     \<lparr>coin_id = ''ethereum'', current_price = Number (Fin 3000),
      coin_name = Some ''Ethereum'', coin_symbol = Some ''eth''\<rparr>"

text \<open>The cache as a refresh left it, and a stored list with a holding added since from
  outside the server (the command-line tool writes the same file).\<close>

definition behind :: state where
  "behind = (initial [btc, eth])\<lparr>portfolioCache := Items [btc], lastApiCallTime := 100000\<rparr>"

text \<open>A tick that is let through, and the fetch started by an add one second later.\<close>

definition tickThenFetch :: "trigger list" where
  "tickThenFetch = [Tick 100000 marketsOk 100500, AddFetch ''bitcoin'' 101000 marketsOk 101500]"

text \<open>Two more ticks after the read: one 10 seconds after the first, one 30 seconds after.\<close>

definition fourTriggers :: "trigger list" where
  "fourTriggers = tickThenRead @ [Tick 110000 marketsOk 110500, Tick 130000 marketsOk 130500]"

section \<open>The retry wrapper\<close>

lemma retryAxios_again:
  "upstream k = HttpError 429 \<Longrightarrow>
   retryAxios upstream k (Suc r) d =
     (fst (retryAxios upstream (Suc k) r (d * 2)),
      Get # Sleep d # snd (retryAxios upstream (Suc k) r (d * 2)))"
  by (subst retryAxios.simps) (simp add: case_prod_beta)

lemma retryAxios_stop:
  "upstream k = e \<Longrightarrow> e \<noteq> HttpError 429 \<Longrightarrow> retryAxios upstream k r d = (e, [Get])"
  by (subst retryAxios.simps) (cases e; cases r; simp)

lemma retryAxios_exhausted:
  "upstream k = HttpError st \<Longrightarrow> retryAxios upstream k 0 d = (HttpError st, [Get])"
  by (subst retryAxios.simps) simp

lemma five_Suc: "(5::nat) = Suc (Suc (Suc (Suc (Suc 0))))"
  by simp

lemma doubling_Suc:
  "map (\<lambda>j. (d::nat) * 2 ^ j) [0..<Suc n] = d # map (\<lambda>j. (d * 2) * 2 ^ j) [0..<n]"
proof -
  have "[0..<Suc n] = 0 # map Suc [0..<n]"
    by (simp add: upt_conv_Cons map_Suc_upt del: upt_Suc)
  then show ?thesis by (simp add: comp_def del: upt_Suc)
qed

text \<open>
  As long as the answers are 429 and retries are left, the wrapper goes on; the first
  other answer ends it, after \<open>n\<close> waits that start at \<open>d\<close> and double.
\<close>

lemma retryAxios_until:
  assumes "\<forall>j<n. upstream (k + j) = HttpError 429" and "n \<le> r"
    and "upstream (k + n) = e" and "e \<noteq> HttpError 429"
  shows "fst (retryAxios upstream k r d) = e \<and>
         attempts (snd (retryAxios upstream k r d)) = Suc n \<and>
         waits (snd (retryAxios upstream k r d)) = map (\<lambda>j. d * 2 ^ j) [0..<n]"
  using assms
proof (induction n arbitrary: k r d)
  case 0
  then show ?case by (simp add: retryAxios_stop attempts_def waits_def)
next
  case (Suc n)
  then obtain r' where r: "r = Suc r'" by (cases r) auto
  have h0: "upstream k = HttpError 429"
    using Suc.prems(1) by (metis add.right_neutral zero_less_Suc)
  have "\<forall>j<n. upstream (Suc k + j) = HttpError 429" using Suc.prems(1) by auto
  moreover have "upstream (Suc k + n) = e" using Suc.prems(3) by simp
  ultimately have ih: "fst (retryAxios upstream (Suc k) r' (d * 2)) = e \<and>
     attempts (snd (retryAxios upstream (Suc k) r' (d * 2))) = Suc n \<and>
     waits (snd (retryAxios upstream (Suc k) r' (d * 2))) = map (\<lambda>j. (d * 2) * 2 ^ j) [0..<n]"
    using Suc.IH [of "Suc k" r' "d * 2"] Suc.prems r by simp
  have w: "waits (Get # Sleep d # snd (retryAxios upstream (Suc k) r' (d * 2))) =
      d # waits (snd (retryAxios upstream (Suc k) r' (d * 2)))"
    by (simp add: waits_def)
  show ?case using ih r w
    by (simp add: retryAxios_again [of upstream k, OF h0] attempts_def doubling_Suc del: upt_Suc)
qed

text \<open>
  Claim C3, as stated: against an upstream that answers 429 to every request the fetch
  makes at most 5 attempts. It makes 6: the first request and one for each of the 5
  retries.
\<close>

theorem retryAxios_six_attempts:
  "\<not> attempts (snd (retryAxios always429 0 5 1000)) \<le> 5"
  unfolding five_Suc
  by (simp add: retryAxios_again retryAxios_exhausted attempts_def always429_def)

text \<open>
  Claim C3, amended. If the upstream answers 429 to every request, \<^verbatim>\<open>retryAxios\<close> sends 6
  requests, waits 1000, 2000, 4000, 8000 and 16000 milliseconds between them, and then
  rejects with the 429 failure. If the answers are 429 up to request \<open>n\<close> (at most 5 of
  them) and request \<open>n\<close> meets anything else, that outcome is what the wrapper settles
  with, after \<open>n + 1\<close> requests and \<open>n\<close> doubling waits: no request follows an error other
  than 429.
\<close>

theorem retryAxios_backoff:
  "((\<forall>k. upstream k = HttpError 429) \<longrightarrow>
      retryAxios upstream 0 5 1000 =
        (HttpError 429, [Get, Sleep 1000, Get, Sleep 2000, Get, Sleep 4000, Get, Sleep 8000,
                         Get, Sleep 16000, Get])) \<and>
   ((\<forall>j<n. upstream j = HttpError 429) \<and> n \<le> 5 \<and> upstream n = e \<and> e \<noteq> HttpError 429 \<longrightarrow>
      fst (retryAxios upstream 0 5 1000) = e \<and>
      attempts (snd (retryAxios upstream 0 5 1000)) = Suc n \<and>
      waits (snd (retryAxios upstream 0 5 1000)) = map (\<lambda>j. 1000 * 2 ^ j) [0..<n])"
proof (rule conjI; rule impI)
  assume "\<forall>k. upstream k = HttpError 429"
  then show "retryAxios upstream 0 5 1000 =
        (HttpError 429, [Get, Sleep 1000, Get, Sleep 2000, Get, Sleep 4000, Get, Sleep 8000,
                         Get, Sleep 16000, Get])"
    unfolding five_Suc by (simp add: retryAxios_again retryAxios_exhausted)
next
  assume "(\<forall>j<n. upstream j = HttpError 429) \<and> n \<le> 5 \<and> upstream n = e \<and> e \<noteq> HttpError 429"
  then show "fst (retryAxios upstream 0 5 1000) = e \<and>
      attempts (snd (retryAxios upstream 0 5 1000)) = Suc n \<and>
      waits (snd (retryAxios upstream 0 5 1000)) = map (\<lambda>j. 1000 * 2 ^ j) [0..<n]"
    using retryAxios_until [of n upstream 0 5 e 1000] by simp
qed

theorem retryAxios_backoff_witness:
  "(\<forall>k. always429 k = HttpError 429) \<and>
   attempts (snd (retryAxios always429 0 5 1000)) = 6 \<and>
   waits (snd (retryAxios always429 0 5 1000)) = [1000, 2000, 4000, 8000, 16000] \<and>
   fst (retryAxios always429 0 5 1000) = HttpError 429 \<and>
   twiceLimited 0 = HttpError 429 \<and> twiceLimited 1 = HttpError 429 \<and>
   twiceLimited 2 = HttpError 500 \<and>
   fst (retryAxios twiceLimited 0 5 1000) = HttpError 500 \<and>
   attempts (snd (retryAxios twiceLimited 0 5 1000)) = 3 \<and>
   waits (snd (retryAxios twiceLimited 0 5 1000)) = [1000, 2000]"
proof -
  have a: "\<forall>k. always429 k = HttpError 429" by (simp add: always429_def)
  have b: "(\<forall>j<2. twiceLimited j = HttpError 429) \<and> (2::nat) \<le> 5 \<and>
           twiceLimited 2 = HttpError 500 \<and> (HttpError 500 :: coinData list reply) \<noteq> HttpError 429"
    by (simp add: twiceLimited_def)
  have c: "twiceLimited 0 = HttpError 429 \<and> twiceLimited 1 = HttpError 429"
    by (simp add: twiceLimited_def)
  have two: "[0..<2] = [0, Suc 0]" by (simp add: upt_conv_Cons)
  show ?thesis
    using a b c retryAxios_backoff [of always429 0 NoResponse]
      retryAxios_backoff [of twiceLimited 2 "HttpError 500"]
    by (simp add: attempts_def waits_def two)
qed

section \<open>Removing a holding\<close>

lemma filter_absent:
  "coinId \<notin> coin ` set xs \<Longrightarrow> filter (\<lambda>item. coin item \<noteq> coinId) xs = xs"
  by (induction xs) auto

lemma filter_present_length:
  "distinct (map coin xs) \<Longrightarrow> coinId \<in> coin ` set xs \<Longrightarrow>
   Suc (length (filter (\<lambda>item. coin item \<noteq> coinId) xs)) = length xs"
proof (induction xs)
  case Nil
  then show ?case by simp
next
  case (Cons x xs)
  show ?case
  proof (cases "coin x = coinId")
    case True
    then have "coinId \<notin> coin ` set xs" using Cons.prems(1) by auto
    then show ?thesis using True by (simp add: filter_absent)
  next
    case False
    then show ?thesis using Cons by auto
  qed
qed

lemma filter_not_shorter:
  "\<not> length (filter P xs) < length xs \<Longrightarrow> filter P xs = xs"
  using length_filter_less [of _ xs P] by (auto simp: filter_id_conv)

lemma remove_file:
  "portfolioFile (snd (remove coinId s)) =
     filter (\<lambda>item. coin item \<noteq> coinId) (portfolioFile s)"
  by (simp add: remove_def Let_def updatePortfolioCache_def filter_not_shorter)

text \<open>
  Claim C6. Removing a coin id that no stored holding has answers 404 and leaves the whole
  state, stored list and cache, as it was. Removing an id that one holding has, in a
  list of distinct ids, answers 200, leaves the stored list one entry shorter (the list
  without the holdings of that id), and sets the cache to that same list.
\<close>

theorem remove_outcomes:
  "(coinId \<notin> coin ` set (portfolioFile s) \<longrightarrow> remove coinId s = (Json404, s)) \<and>
   (coinId \<in> coin ` set (portfolioFile s) \<and> distinct (map coin (portfolioFile s)) \<longrightarrow>
      fst (remove coinId s) = Json200 () \<and>
      Suc (length (portfolioFile (snd (remove coinId s)))) = length (portfolioFile s) \<and>
      portfolioFile (snd (remove coinId s)) =
        filter (\<lambda>item. coin item \<noteq> coinId) (portfolioFile s) \<and>
      portfolioCache (snd (remove coinId s)) = Items (portfolioFile (snd (remove coinId s))))"
proof (rule conjI; rule impI)
  assume "coinId \<notin> coin ` set (portfolioFile s)"
  then show "remove coinId s = (Json404, s)"
    by (simp add: remove_def Let_def filter_absent)
next
  assume a: "coinId \<in> coin ` set (portfolioFile s) \<and> distinct (map coin (portfolioFile s))"
  then have len: "Suc (length (filter (\<lambda>item. coin item \<noteq> coinId) (portfolioFile s))) =
      length (portfolioFile s)"
    by (simp add: filter_present_length)
  then have lt: "length (filter (\<lambda>item. coin item \<noteq> coinId) (portfolioFile s)) <
      length (portfolioFile s)" by linarith
  have "fst (remove coinId s) = Json200 ()"
    using lt by (simp add: remove_def Let_def)
  moreover have "Suc (length (portfolioFile (snd (remove coinId s)))) = length (portfolioFile s)"
    using len by (simp add: remove_file)
  moreover have "portfolioCache (snd (remove coinId s)) = Items (portfolioFile (snd (remove coinId s)))"
    using lt by (simp add: remove_def Let_def updatePortfolioCache_def)
  ultimately show "fst (remove coinId s) = Json200 () \<and>
      Suc (length (portfolioFile (snd (remove coinId s)))) = length (portfolioFile s) \<and>
      portfolioFile (snd (remove coinId s)) =
        filter (\<lambda>item. coin item \<noteq> coinId) (portfolioFile s) \<and>
      portfolioCache (snd (remove coinId s)) = Items (portfolioFile (snd (remove coinId s)))"
    by (simp add: remove_file)
qed

theorem remove_outcomes_witness:
  "''dogecoin'' \<notin> coin ` set (portfolioFile (initial [btc, eth])) \<and>
   remove ''dogecoin'' (initial [btc, eth]) = (Json404, initial [btc, eth]) \<and>
   ''bitcoin'' \<in> coin ` set (portfolioFile (initial [btc, eth])) \<and>
   distinct (map coin (portfolioFile (initial [btc, eth]))) \<and>
   fst (remove ''bitcoin'' (initial [btc, eth])) = Json200 () \<and>
   portfolioFile (snd (remove ''bitcoin'' (initial [btc, eth]))) = [eth] \<and>
   portfolioCache (snd (remove ''bitcoin'' (initial [btc, eth]))) = Items [eth]"
proof -
  have h: "''dogecoin'' \<notin> coin ` set (portfolioFile (initial [btc, eth])) \<and>
           ''bitcoin'' \<in> coin ` set (portfolioFile (initial [btc, eth])) \<and>
           distinct (map coin (portfolioFile (initial [btc, eth])))"
    by (simp add: initial_def btc_def eth_def)
  have f: "filter (\<lambda>item. coin item \<noteq> ''bitcoin'') (portfolioFile (initial [btc, eth])) = [eth]"
    by (simp add: initial_def btc_def eth_def)
  show ?thesis
    using h f remove_outcomes [of "''dogecoin''" "initial [btc, eth]"]
      remove_outcomes [of "''bitcoin''" "initial [btc, eth]"]
    by simp
qed

section \<open>The periodic refresh\<close>

text \<open>
  Claim C9. A tick that passes the interval test and loads an empty list sets the cache to the
  empty object, calls \<^verbatim>\<open>savePortfolio\<close> once, with the empty list, so that the stored list
  is empty afterwards, and sends no request to the price feed.
\<close>

theorem tick_on_empty_portfolio:
  assumes "API_CALL_INTERVAL \<le> now - lastApiCallTime s" and "portfolioFile s = []"
  shows "portfolioCache (fetchAndCachePrices now upstream stamp s) = EmptyObject \<and>
         portfolioFile (fetchAndCachePrices now upstream stamp s) = [] \<and>
         saves (fetchAndCachePrices now upstream stamp s) = saves s @ [[]] \<and>
         feedCalls (fetchAndCachePrices now upstream stamp s) = feedCalls s"
  using assms by (simp add: fetchAndCachePrices_def)

theorem tick_on_empty_portfolio_witness:
  "API_CALL_INTERVAL \<le> 100000 - lastApiCallTime emptied \<and>
   portfolioFile emptied = [] \<and> portfolioCache emptied = Items [] \<and>
   portfolioCache (fetchAndCachePrices 100000 marketsOk 100500 emptied) = EmptyObject \<and>
   portfolioFile (fetchAndCachePrices 100000 marketsOk 100500 emptied) = [] \<and>
   saves emptied = [[]] \<and>
   saves (fetchAndCachePrices 100000 marketsOk 100500 emptied) = [[], []] \<and>
   feedCalls (fetchAndCachePrices 100000 marketsOk 100500 emptied) = []"
proof -
  have e: "emptied = \<lparr>portfolioCache = Items [], lastApiCallTime = 0, portfolioFile = [],
                       feedCalls = [], saves = [[]]\<rparr>"
    by (simp add: emptied_def remove_def initial_def btc_def updatePortfolioCache_def)
  have h: "API_CALL_INTERVAL \<le> 100000 - lastApiCallTime emptied \<and> portfolioFile emptied = []"
    by (simp add: e API_CALL_INTERVAL_def)
  show ?thesis
    using h tick_on_empty_portfolio [of 100000 emptied marketsOk 100500] by (simp add: e)
qed

section \<open>The interval test and the three paths to the price feed\<close>

lemma spaced_snoc:
  "spaced (ts @ [n]) = (spaced ts \<and> list_all (\<lambda>t. API_CALL_INTERVAL \<le> \<bar>n - t\<bar>) ts)"
  by (induction ts) auto

lemma fetchAndCachePrices_skip:
  "now - lastApiCallTime s < API_CALL_INTERVAL \<Longrightarrow> fetchAndCachePrices now upstream stamp s = s"
  by (simp add: fetchAndCachePrices_def)

lemma fetchAndCachePrices_times:
  "callTimes P (fetchAndCachePrices now upstream stamp s) = callTimes P s \<or>
   (API_CALL_INTERVAL \<le> now - lastApiCallTime s \<and>
    callTimes P (fetchAndCachePrices now upstream stamp s) =
      callTimes P s @ (if P Periodic then [now] else []))"
  by (auto simp: fetchAndCachePrices_def Let_def callTimes_def split: reply.splits)

lemma fetchAndCachePrices_last:
  "lastApiCallTime (fetchAndCachePrices now upstream stamp s) =
     (if now - lastApiCallTime s < API_CALL_INTERVAL then lastApiCallTime s else now)"
  by (auto simp: fetchAndCachePrices_def Let_def split: reply.splits)

lemma throttled_tick: "throttled s \<Longrightarrow> throttled (fetchAndCachePrices now upstream stamp s)"
proof -
  assume g: "throttled s"
  have pos: "0 \<le> API_CALL_INTERVAL" by (simp add: API_CALL_INTERVAL_def)
  consider (same) "callTimes periodic (fetchAndCachePrices now upstream stamp s) =
        callTimes periodic s"
    | (call) "API_CALL_INTERVAL \<le> now - lastApiCallTime s"
        "callTimes periodic (fetchAndCachePrices now upstream stamp s) =
           callTimes periodic s @ [now]"
    using fetchAndCachePrices_times [of periodic now upstream stamp s]
    by (auto simp: periodic_def)
  then show ?thesis
  proof cases
    case same
    then show ?thesis using g pos
      by (auto simp: throttled_def fetchAndCachePrices_last list_all_iff)
  next
    case call
    then show ?thesis using g pos
      by (fastforce simp: throttled_def fetchAndCachePrices_last spaced_snoc list_all_iff)
  qed
qed

lemma throttled_fetchCoinPrice: "throttled s \<Longrightarrow> throttled (fetchCoinPrice coinId now upstream stamp s)"
  by (auto simp: throttled_def fetchCoinPrice_def Let_def callTimes_def periodic_def
      split: reply.splits list.splits)

lemma throttled_reconcile: "throttled s \<Longrightarrow> throttled (fst (reconcile now reply t0 s))"
  by (auto simp: throttled_def reconcile_def Let_def callTimes_def periodic_def
      split: reply.splits list.splits prod.splits)

lemma throttled_step: "throttled s \<Longrightarrow> throttled (step s t)"
  by (cases t) (simp_all add: throttled_tick throttled_fetchCoinPrice throttled_reconcile)

lemma throttled_run: "throttled s \<Longrightarrow> throttled (run s ts)"
  unfolding run_def by (induction ts arbitrary: s) (simp_all add: throttled_step)

lemma throttled_initial: "throttled (initial stored)"
  by (simp add: throttled_def initial_def callTimes_def)

text \<open>After a tick that fetched the price the read of the portfolio succeeds, so that its
  background task starts.\<close>

lemma toUpperCase_btc: "toUpperCase ''btc'' = ''BTC''"
  by code_simp

lemma read_after_tick:
  "getPortfolioView (run (initial [btc]) [Tick 100000 marketsOk 100500]) =
     Json200 ([\<lparr>row_name = Some ''Bitcoin'', row_symbol = ''BTC'', row_amount = Fin 2,
                row_price = Shown (ToFixed 2 (Fin 50000)),
                row_value = Shown (ToFixed 2 (Fin 100000)),
                cached = True, row_coin = ''bitcoin''\<rparr>], [ToFixed 2 (Fin 100000)])"
  by (simp add: run_def initial_def fetchAndCachePrices_def Let_def btc_def
      API_CALL_INTERVAL_def marketsOk_def retryAxios.simps refreshItem_def liveCoinData_def
      btcData_def getPortfolioView_def getCachedPortfolio_def viewItem_def totalled_def
      toUpperCase_btc)

text \<open>
  Claim C1, as stated: over every sequence of ticks, on-demand fetches and background
  tasks, no two full-batch requests start less than 30 seconds apart, and a trigger that
  arrives inside that interval is skipped. A tick at time 100000 passes the interval test and sends
  its request. The background task of a read at time 101000 sends the same full-batch
  request one second later, and an on-demand fetch at time 101000 sends its request too:
  neither path looks at \<^verbatim>\<open>lastApiCallTime\<close>.
\<close>

theorem refresh_triggers_not_skipped:
  "\<not> spaced (callTimes fullBatch (run (initial [btc]) tickThenRead)) \<and>
   feedCalls (run (initial [btc]) tickThenFetch) =
     [\<lparr>started = 100000, ids = [''bitcoin''], origin = Periodic\<rparr>,
      \<lparr>started = 101000, ids = [''bitcoin''], origin = OnDemand\<rparr>]"
  by (simp add: run_def tickThenRead_def tickThenFetch_def initial_def fetchAndCachePrices_def
      reconcile_def fetchCoinPrice_def Let_def btc_def API_CALL_INTERVAL_def callTimes_def
      fullBatch_def marketsOk_def retryAxios.simps case_prod_beta)

text \<open>
  Claim C1, amended to the path that tests the interval. From the start of the process and over
  every sequence of ticks, on-demand fetches and background tasks, in any order and at
  any times, no two requests sent by the periodic refresh \<^verbatim>\<open>fetchAndCachePrices\<close> start
  less than \<^verbatim>\<open>API_CALL_INTERVAL\<close> apart, the start of a request being the time read for
  the test and written to \<^verbatim>\<open>lastApiCallTime\<close>; a tick that arrives inside the interval after
  \<^verbatim>\<open>lastApiCallTime\<close> returns at once and leaves the whole state as it was: nothing is
  queued and nothing fails.
\<close>

theorem periodic_calls_spaced:
  "spaced (callTimes periodic (run (initial stored) ts)) \<and>
   (now - lastApiCallTime s < API_CALL_INTERVAL \<longrightarrow>
      fetchAndCachePrices now upstream stamp s = s)"
  using throttled_run [OF throttled_initial, of stored ts] fetchAndCachePrices_skip
  by (simp add: throttled_def)

theorem periodic_calls_spaced_witness:
  "110000 - lastApiCallTime (run (initial [btc]) tickThenRead) < API_CALL_INTERVAL \<and>
   fetchAndCachePrices 110000 marketsOk 110500 (run (initial [btc]) tickThenRead) =
     run (initial [btc]) tickThenRead \<and>
   callTimes periodic (run (initial [btc]) fourTriggers) = [100000, 130000] \<and>
   spaced (callTimes periodic (run (initial [btc]) fourTriggers))"
proof -
  have l: "lastApiCallTime (run (initial [btc]) tickThenRead) = 100000"
    by (simp add: run_def tickThenRead_def initial_def fetchAndCachePrices_def reconcile_def
        Let_def btc_def API_CALL_INTERVAL_def marketsOk_def retryAxios.simps case_prod_beta)
  have c: "callTimes periodic (run (initial [btc]) fourTriggers) = [100000, 130000]"
    by (simp add: run_def fourTriggers_def tickThenRead_def initial_def fetchAndCachePrices_def
        reconcile_def Let_def btc_def API_CALL_INTERVAL_def callTimes_def periodic_def
        marketsOk_def retryAxios.simps case_prod_beta)
  have h: "110000 - lastApiCallTime (run (initial [btc]) tickThenRead) < API_CALL_INTERVAL"
    by (simp add: l API_CALL_INTERVAL_def)
  show ?thesis
    using h c
      periodic_calls_spaced [of "[btc]" fourTriggers 110000 "run (initial [btc]) tickThenRead"
        marketsOk 110500]
    by simp
qed

section \<open>The on-demand fetch of one coin\<close>

lemma priceItem_other: "coin item \<noteq> coinId \<Longrightarrow> priceItem coinId c stamp item = item"
  by (simp add: priceItem_def)

lemma priceItem_coin: "coin (priceItem coinId c stamp item) = coin item"
  by (simp add: priceItem_def)

lemma priceItem_amount: "amount (priceItem coinId c stamp item) = amount item"
  by (simp add: priceItem_def)

text \<open>
  Claim C8. After \<^verbatim>\<open>fetchCoinPrice(coinId)\<close> the stored list has the length it had; every
  holding keeps its coin id and its amount; every holding of another coin is, field for
  field, what the list loaded by the fetch had at that position; and either nothing was
  written (the stored list and the cache are as before) or the cache is the list just
  saved.
\<close>

theorem fetchCoinPrice_frame:
  assumes "s1 = fetchCoinPrice coinId now upstream stamp s"
  shows "length (portfolioFile s1) = length (portfolioFile s) \<and>
         (\<forall>i < length (portfolioFile s).
            coin (portfolioFile s1 ! i) = coin (portfolioFile s ! i) \<and>
            amount (portfolioFile s1 ! i) = amount (portfolioFile s ! i) \<and>
            (coin (portfolioFile s ! i) \<noteq> coinId \<longrightarrow>
               portfolioFile s1 ! i = portfolioFile s ! i)) \<and>
         (portfolioFile s1 = portfolioFile s \<and> portfolioCache s1 = portfolioCache s \<or>
          portfolioCache s1 = Items (portfolioFile s1))"
  using assms
  by (auto simp: fetchCoinPrice_def Let_def priceItem_other priceItem_coin priceItem_amount
      split: reply.splits list.splits)

theorem fetchCoinPrice_frame_witness:
  "portfolioFile (fetchCoinPrice ''bitcoin'' 1000 marketsOk 2000 (initial [btc, eth])) =
     [btcPriced\<lparr>lastPrice := Some \<lparr>usd = Number (Fin 50000), timestamp = 2000\<rparr>\<rparr>, eth] \<and>
   coin (portfolioFile (initial [btc, eth]) ! 1) \<noteq> ''bitcoin'' \<and>
   portfolioFile (fetchCoinPrice ''bitcoin'' 1000 marketsOk 2000 (initial [btc, eth])) ! 1 =
     portfolioFile (initial [btc, eth]) ! 1 \<and>
   portfolioCache (fetchCoinPrice ''bitcoin'' 1000 marketsOk 2000 (initial [btc, eth])) =
     Items (portfolioFile (fetchCoinPrice ''bitcoin'' 1000 marketsOk 2000 (initial [btc, eth])))"
proof -
  have f: "portfolioFile (fetchCoinPrice ''bitcoin'' 1000 marketsOk 2000 (initial [btc, eth])) =
     [btcPriced\<lparr>lastPrice := Some \<lparr>usd = Number (Fin 50000), timestamp = 2000\<rparr>\<rparr>, eth]"
    by (simp add: fetchCoinPrice_def Let_def initial_def marketsOk_def retryAxios.simps
        priceItem_def btc_def eth_def btcPriced_def btcData_def)
  have h: "coin (portfolioFile (initial [btc, eth]) ! 1) \<noteq> ''bitcoin'' \<and>
           (1::nat) < length (portfolioFile (initial [btc, eth]))"
    by (simp add: initial_def eth_def)
  have n: "portfolioFile (fetchCoinPrice ''bitcoin'' 1000 marketsOk 2000 (initial [btc, eth])) \<noteq>
           portfolioFile (initial [btc, eth])"
    unfolding f by (simp add: initial_def btc_def btcPriced_def)
  show ?thesis
    using f h n
      fetchCoinPrice_frame [of "fetchCoinPrice ''bitcoin'' 1000 marketsOk 2000 (initial [btc, eth])"
        "''bitcoin''" 1000 marketsOk 2000 "initial [btc, eth]", OF refl]
    by (auto simp: initial_def)
qed

section \<open>Distinct coin ids\<close>












section \<open>The price of one coin\<close>

text \<open>
  Claim C7, as stated: a price is returned only if the cache holds an entry observed
  within \<^verbatim>\<open>CACHE_DURATION\<close> of now. The handler never reads a timestamp or the clock: a
  day after the only observation, at time 86400000, it still answers with the price.
\<close>

theorem getCoinPrice_stale_entry:
  "getCoinPrice noNumber ''bitcoin'' pricedState =
     Json200 (Number (Fin 50000), ToFixed 2 (Fin 100000)) \<and>
   \<not> fresh_spec 86400000 btcPriced"
  by (simp add: getCoinPrice_def getCachedPortfolio_def pricedState_def initial_def
      btcPriced_def fresh_spec_def CACHE_DURATION_def)

text \<open>
  Claim C7, amended. When the cache is a list of holdings, the handler answers 200 with
  \<open>(price, value)\<close> if and only if the first cached holding of that coin has a \<^verbatim>\<open>lastPrice\<close>
  whose \<^verbatim>\<open>usd\<close> is not the string \<^verbatim>\<open>'N/A'\<close>, whatever its age; then \<open>price\<close> is that
  \<^verbatim>\<open>usd\<close> and \<open>value\<close> is the amount times the price, formatted to 2 decimals. In every
  other case it answers 404, and never 500.
\<close>

theorem getCoinPrice_cached:
  assumes "portfolioCache s = Items portfolio"
  shows "(getCoinPrice sn coinId s = Json200 (p, v)) =
           (\<exists>c lp. find (\<lambda>item. coin item = coinId) portfolio = Some c \<and>
                   lastPrice c = Some lp \<and> usd lp \<noteq> Str ''N/A'' \<and> p = usd lp \<and>
                   v = ToFixed 2 (times_num (amount c) (toNumber sn p))) \<and>
         (getCoinPrice sn coinId s = Json404) =
           (\<forall>c lp. find (\<lambda>item. coin item = coinId) portfolio = Some c \<and>
                   lastPrice c = Some lp \<longrightarrow> usd lp = Str ''N/A'') \<and>
         getCoinPrice sn coinId s \<noteq> Json500"
  using assms
  by (auto simp: getCoinPrice_def getCachedPortfolio_def split: option.splits)

theorem getCoinPrice_cached_witness:
  "portfolioCache pricedState = Items [btcPriced] \<and>
   find (\<lambda>item. coin item = ''bitcoin'') [btcPriced] = Some btcPriced \<and>
   lastPrice btcPriced = Some \<lparr>usd = Number (Fin 50000), timestamp = 0\<rparr> \<and>
   getCoinPrice noNumber ''bitcoin'' pricedState =
     Json200 (Number (Fin 50000), ToFixed 2 (Fin 100000)) \<and>
   getCoinPrice noNumber ''ethereum'' pricedState = Json404"
proof -
  have c: "portfolioCache pricedState = Items [btcPriced]"
    by (simp add: pricedState_def initial_def)
  have f: "find (\<lambda>item. coin item = ''bitcoin'') [btcPriced] = Some btcPriced \<and>
           find (\<lambda>item. coin item = ''ethereum'') [btcPriced] = None \<and>
           lastPrice btcPriced = Some \<lparr>usd = Number (Fin 50000), timestamp = 0\<rparr> \<and>
           amount btcPriced = Fin 2"
    by (simp add: btcPriced_def)
  show ?thesis
    using c f
      getCoinPrice_cached [OF c, of noNumber "''bitcoin''" "Number (Fin 50000)"
        "ToFixed 2 (Fin 100000)"]
      getCoinPrice_cached [OF c, of noNumber "''ethereum''" Undefined "ToFixed 2 NaN"]
    by simp
qed

section \<open>Reading the portfolio\<close>

text \<open>A holding without \<^verbatim>\<open>lastPrice\<close> is shown with price and value \<^verbatim>\<open>'N/A'\<close>, not cached.\<close>

lemma viewItem_unpriced:
  "lastPrice item = None \<Longrightarrow>
   viewItem item =
     Inr \<lparr>row_name = Some (orElse (name item) (coin item)),
          row_symbol = orElse (symbol item) ''N/A'', row_amount = amount item,
          row_price = NA, row_value = NA, cached = False, row_coin = coin item\<rparr>"
  by (simp add: viewItem_def)

text \<open>The holding that an add creates cannot be shown: its price \<^verbatim>\<open>'N/A'\<close> is a truthy
  string, and the handler calls \<^verbatim>\<open>toFixed\<close> on it.\<close>

lemma viewItem_newHolding: "viewItem (newHolding coinId a) = Inl TypeError"
  by (simp add: viewItem_def newHolding_def)

lemma viewItems_fails:
  "item \<in> set portfolio \<Longrightarrow> viewItem item = Inl TypeError \<Longrightarrow>
   viewItems portfolio = Inl TypeError"
  by (induction portfolio) (auto split: sum.splits intro: jserror.exhaust)

lemma getPortfolioView_empty_object: "getPortfolioView (initial stored) = Json500"
  by (simp add: getPortfolioView_def getCachedPortfolio_def initial_def)

text \<open>
  Claim C2 at the state it names: 2 bitcoin are added to an empty portfolio, so that the
  cache holds the new holding with the placeholder price \<^verbatim>\<open>{usd: 'N/A', timestamp: 0}\<close>.
  The read of the portfolio then answers with status 500, where the claim has it succeed
  with price and value \<^verbatim>\<open>'N/A'\<close>.
\<close>

theorem getPortfolioView_after_add:
  "fst (add noNumber noNumber (Some ''bitcoin'') (Number (Fin 2)) (initial [])) =
     Json200 [newHolding ''bitcoin'' (Fin 2)] \<and>
   portfolioCache (snd (add noNumber noNumber (Some ''bitcoin'') (Number (Fin 2)) (initial []))) =
     Items [newHolding ''bitcoin'' (Fin 2)] \<and>
   getPortfolioView (snd (add noNumber noNumber (Some ''bitcoin'') (Number (Fin 2)) (initial []))) =
     Json500"
  by (simp add: add_def isNaN_def leZero_def initial_def updatePortfolioCache_def Let_def
      getPortfolioView_def getCachedPortfolio_def viewItem_newHolding)

section \<open>The background task of a read\<close>

lemma reconcile_cache: "portfolioCache (fst (reconcile now reply t0 s)) = portfolioCache s"
  by (simp add: reconcile_def Let_def case_prod_beta)

text \<open>A numeric \<^verbatim>\<open>current_price\<close>, which is what \<^verbatim>\<open>/coins/markets\<close> sends and what
  \<^verbatim>\<open>cacheManager.js\<close> reads, has no property \<^verbatim>\<open>usd\<close>: the holding stays as it is.\<close>

lemma reconcilePrice_number:
  "live (coin item) = Some c \<Longrightarrow> current_price c = Number n \<Longrightarrow>
   reconcilePrice live t item = item"
  by (simp add: reconcilePrice_def)

text \<open>
  Claim C4 at a state where the read succeeds and the stored list has one holding more
  than the cache; neither holding has a price, and the feed answers with a price for
  both. The task waits 3 seconds for each of the two holdings and saves the list, but
  writes no price into either holding, and the cache is still the old one-holding list,
  where the claim has both holdings updated and the cache replaced by the saved list.
\<close>

theorem reconcile_leaves_prices_and_cache:
  "getPortfolioView behind =
     Json200 ([\<lparr>row_name = Some ''bitcoin'', row_symbol = ''N/A'', row_amount = Fin 2,
                row_price = NA, row_value = NA, cached = False, row_coin = ''bitcoin''\<rparr>], []) \<and>
   reconcile 200000 (Resolved [btcData, ethData]) 200500 behind =
     (\<lparr>portfolioCache = Items [btc], lastApiCallTime = 100000, portfolioFile = [btc, eth],
       feedCalls = [\<lparr>started = 200000, ids = [''bitcoin'', ''ethereum''],
                     origin = Reconciliation\<rparr>],
       saves = [[btc, eth]]\<rparr>,
      206500)"
  by (simp add: behind_def initial_def getPortfolioView_def getCachedPortfolio_def viewItem_def
      orElse_def totalled_def reconcile_def Let_def liveCoinData_def needsUpdate_def
      reconcilePrice_def btc_def eth_def btcData_def ethData_def)

section \<open>Adding a holding\<close>

lemma add_rejected:
  "coinId = None \<or> coinId = Some [] \<or> isNaN sn amt \<or> leZero sn amt \<Longrightarrow>
   add sn sf coinId amt s = (Json400, s)"
  by (auto simp: add_def split: option.splits)

lemma add_new:
  assumes "c \<noteq> []" and "0 < a" and "c \<notin> set (map coin (portfolioFile s))"
  shows "add sn sf (Some c) (Number (Fin a)) s =
     (Json200 (portfolioFile s @ [newHolding c (Fin a)]),
      s\<lparr>portfolioFile := portfolioFile s @ [newHolding c (Fin a)],
        saves := saves s @ [portfolioFile s @ [newHolding c (Fin a)]],
        portfolioCache := Items (portfolioFile s @ [newHolding c (Fin a)])\<rparr>)"
proof -
  have "find (\<lambda>item. coin item = c) (portfolioFile s) = None"
    using assms(3) by (auto simp: find_None_iff)
  then show ?thesis using assms(1,2)
    by (simp add: add_def isNaN_def leZero_def updatePortfolioCache_def Let_def)
qed

lemma addToExisting_nth:
  "i < length xs \<Longrightarrow> coin (xs ! i) = c \<Longrightarrow> distinct (map coin xs) \<Longrightarrow>
   addToExisting c a xs = xs[i := (xs ! i)\<lparr>amount := plus_num (amount (xs ! i)) a\<rparr>]"
proof (induction xs arbitrary: i)
  case Nil
  then show ?case by simp
next
  case (Cons x xs)
  show ?case
  proof (cases i)
    case 0
    then show ?thesis using Cons.prems by simp
  next
    case (Suc j)
    then have "coin x \<noteq> c" using Cons.prems by auto
    then show ?thesis using Suc Cons by simp
  qed
qed

lemma add_existing:
  assumes "c \<noteq> []" and "0 < a" and "i < length (portfolioFile s)"
    and "coin (portfolioFile s ! i) = c" and "distinct (map coin (portfolioFile s))"
  shows "fst (add sn sf (Some c) (Number (Fin a)) s) =
     Json200 ((portfolioFile s)[i := (portfolioFile s ! i)
                \<lparr>amount := plus_num (amount (portfolioFile s ! i)) (Fin a)\<rparr>])"
proof -
  have "portfolioFile s ! i \<in> set (portfolioFile s)" using assms(3) by simp
  then have "find (\<lambda>item. coin item = c) (portfolioFile s) \<noteq> None"
    using assms(4) by (auto simp: find_None_iff)
  then show ?thesis using assms
    by (auto simp: add_def isNaN_def leZero_def updatePortfolioCache_def Let_def
        addToExisting_nth split: option.splits)
qed

text \<open>
  Claim C5 at a request whose amount is not a number: the body
  \<^verbatim>\<open>{"coinId": "bitcoin", "amount": true}\<close>. \<^verbatim>\<open>isNaN(true)\<close> and \<^verbatim>\<open>true <= 0\<close> are both
  false, so the request passes the validation, and \<^verbatim>\<open>parseFloat(true)\<close> is \<^verbatim>\<open>NaN\<close>: the
  handler answers 200 and stores a holding whose amount is \<^verbatim>\<open>NaN\<close>, where the claim has
  the request rejected and the list unchanged.
\<close>

theorem add_boolean_amount:
  "add noNumber noNumber (Some ''bitcoin'') (Bool True) (initial []) =
     (Json200 [newHolding ''bitcoin'' NaN],
      \<lparr>portfolioCache = Items [newHolding ''bitcoin'' NaN], lastApiCallTime = 0,
       portfolioFile = [newHolding ''bitcoin'' NaN], feedCalls = [],
       saves = [[newHolding ''bitcoin'' NaN]]\<rparr>)"
  by (simp add: add_def isNaN_def leZero_def initial_def updatePortfolioCache_def Let_def)

end
